theory Spec2Isabelle
  imports Complex_Main "HOL-Library.Multiset" "HOL-Library.Char_ord" "HOL-Library.List_Lexorder"
begin

section \<open>JavaScript values used by the calculator\<close>

text \<open>
  The development embeds \<^verbatim>\<open>calculate_pl.js\<close> and the accounting loop of
  \<^verbatim>\<open>calculate_profit_loss.js\<close>.

  Numbers. A JavaScript Number is an IEEE-754 double. Here a finite Number is read as the
  exact real number it denotes and \<open>+\<close>, \<open>-\<close>, \<open>*\<close>, \<open>/\<close> are exact: the rounding
  of each operation to the nearest double, overflow to Infinity and \<open>NaN\<close> are not
  modelled, and the constants \<^verbatim>\<open>1e-8\<close> and \<^verbatim>\<open>1e-6\<close> are the exact
  decimals. Every statement below is a statement about this exact reading.

  Strings. A string is a list of \<^typ>\<open>char\<close>; the ASCII range is what the code inspects.

  A field read from a row, \<^verbatim>\<open>cols[i]\<close>, is a string or \<^verbatim>\<open>undefined\<close>:
  a \<^typ>\<open>string option\<close> with \<open>None\<close> for \<^verbatim>\<open>undefined\<close>.
\<close>

type_synonym number = real

definition String' :: "string option \<Rightarrow> string" where
  \<comment> \<open>\<^verbatim>\<open>String(value)\<close>, also the conversion \<^verbatim>\<open>RegExp.prototype.test\<close> applies to its argument\<close>
  "String' v = (case v of None \<Rightarrow> ''undefined'' | Some s \<Rightarrow> s)"

definition falsy :: "string option \<Rightarrow> bool" where
  \<comment> \<open>\<^verbatim>\<open>!value\<close> on a string or \<^verbatim>\<open>undefined\<close>\<close>
  "falsy v = (case v of None \<Rightarrow> True | Some s \<Rightarrow> s = [])"

definition canonicalize :: "char \<Rightarrow> char" where
  \<comment> \<open>the case folding of a regular expression with flag \<^verbatim>\<open>i\<close> and without flag \<^verbatim>\<open>u\<close>:
      upper case, and a character outside ASCII never becomes an ASCII one\<close>
  "canonicalize c =
     (case map_of (zip ''abcdefghijklmnopqrstuvwxyz'' ''ABCDEFGHIJKLMNOPQRSTUVWXYZ'') c of
        None \<Rightarrow> c
      | Some u \<Rightarrow> u)"

definition test_buy :: "string \<Rightarrow> bool" where
  \<comment> \<open>\<^verbatim>\<open>/^buy$/i.test(s)\<close>: without flag \<^verbatim>\<open>m\<close> the anchors are the two ends of \<open>s\<close>\<close>
  "test_buy s = (map canonicalize s = ''BUY'')"

definition test_sell :: "string \<Rightarrow> bool" where
  \<comment> \<open>\<^verbatim>\<open>/^sell$/i.test(s)\<close>\<close>
  "test_sell s = (map canonicalize s = ''SELL'')"

subsection \<open>\<^verbatim>\<open>Number.prototype.toFixed(2)\<close>\<close>

definition digitChar :: "nat \<Rightarrow> char" where
  "digitChar d = ''0123456789'' ! d"

fun decimalDigits :: "nat \<Rightarrow> string" where
  "decimalDigits n =
     (if n < 10 then [digitChar n] else decimalDigits (n div 10) @ [digitChar (n mod 10)])"

declare decimalDigits.simps [simp del]

definition toFixed2 :: "number \<Rightarrow> string" where
  \<comment> \<open>\<^verbatim>\<open>x.toFixed(2)\<close> for \<open>\<bar>x\<bar> < 10^21\<close>: the sign, then the integer \<open>n\<close> nearest to
      \<open>\<bar>x\<bar> * 100\<close> (the larger one at a tie) written with two digits after the point\<close>
  "toFixed2 x =
     (let n = nat \<lfloor>\<bar>x\<bar> * 100 + 1 / 2\<rfloor>
      in (if x < 0 then ''-'' else []) @ decimalDigits (n div 100) @ ''.'' @
         [digitChar (n mod 100 div 10), digitChar (n mod 10)])"

subsection \<open>Arrays\<close>

text \<open>
  \<^verbatim>\<open>profitLossByIndex\<close> is an array of strings. An element is \<open>None\<close> where the array
  has a hole; reading a hole or past the end gives \<^verbatim>\<open>undefined\<close>, and a write past
  the end extends the array.
\<close>

type_synonym jsarray = "string option list"

definition array_get :: "jsarray \<Rightarrow> nat \<Rightarrow> string option" where
  "array_get a i = (if i < length a then a ! i else None)"

definition array_set :: "jsarray \<Rightarrow> nat \<Rightarrow> string \<Rightarrow> jsarray" where
  "array_set a i v =
     (if i < length a then a[i := Some v]
      else a @ replicate (i - length a) None @ [Some v])"

section \<open>Records, column information and positions\<close>

record trade =
  originalIndex :: nat
  line :: string
  cols :: "string list"
  asxCode :: "string option"
  orderType :: "string option"
  tradeDate :: int
  avgPrice :: number
  quantity :: number

text \<open>
  \<open>tradeDate\<close> is the time value of the \<^verbatim>\<open>Date\<close> (milliseconds since the epoch);
  \<^verbatim>\<open>parseTradeDate\<close> never returns an invalid date.
  Of the column information only \<^verbatim>\<open>confirmationIdx\<close> is read after parsing: \<open>-1\<close> when
  the header has no \<^verbatim>\<open>Confirmation Number\<close> column.
\<close>

record columnInfo =
  confirmationIdx :: int

record position =
  pos_quantity :: number
  pos_totalCost :: number

type_synonym positions = "string \<rightharpoonup> position"

datatype error =
    InvalidNumber string            \<comment> \<open>\<^verbatim>\<open>Unable to parse numeric value: ${value}\<close>\<close>
  | InvalidDate string              \<comment> \<open>\<^verbatim>\<open>Invalid Trade Date: ${value}\<close>\<close>
  | NonPositiveSellQuantity string  \<comment> \<open>\<^verbatim>\<open>Sell quantity must be positive for ${code}\<close>\<close>
  | NoExistingPosition string       \<comment> \<open>\<^verbatim>\<open>Sell encountered without existing position for ${code}\<close>\<close>
  | OversoldPosition string         \<comment> \<open>\<^verbatim>\<open>Sell quantity exceeds position for ${code}\<close>\<close>

section \<open>\<^verbatim>\<open>sortRecords\<close>\<close>

definition col_at :: "string list \<Rightarrow> int \<Rightarrow> string option" where
  \<comment> \<open>\<^verbatim>\<open>cols[i]\<close>\<close>
  "col_at cs i = (if 0 \<le> i \<and> nat i < length cs then Some (cs ! nat i) else None)"

definition confirmation :: "columnInfo \<Rightarrow> trade \<Rightarrow> string" where
  \<comment> \<open>\<^verbatim>\<open>a.cols[columnInfo.confirmationIdx] || ''\<close>\<close>
  "confirmation ci a = (case col_at (cols a) (confirmationIdx ci) of None \<Rightarrow> [] | Some s \<Rightarrow> s)"

text \<open>
  The comparison function of \<^verbatim>\<open>sortRecords\<close>. \<open>lc a b\<close> is \<^verbatim>\<open>a.localeCompare(b)\<close>,
  the collation of the host's default locale: it is a parameter.
\<close>

definition compareRecords :: "(string \<Rightarrow> string \<Rightarrow> int) \<Rightarrow> columnInfo \<Rightarrow> trade \<Rightarrow> trade \<Rightarrow> int" where
  "compareRecords lc ci a b =
     (let tDiff = tradeDate a - tradeDate b in
      if tDiff \<noteq> 0 then tDiff
      else if confirmationIdx ci \<noteq> -1 \<and> confirmation ci a \<noteq> confirmation ci b
        then lc (confirmation ci a) (confirmation ci b)
      else int (originalIndex a) - int (originalIndex b))"

text \<open>
  \<^verbatim>\<open>Array.prototype.sort\<close> is stable and, for a consistent comparison function, returns
  the sorted permutation. Insertion from the right is such a sort.
\<close>

fun insertSorted :: "('a \<Rightarrow> 'a \<Rightarrow> int) \<Rightarrow> 'a \<Rightarrow> 'a list \<Rightarrow> 'a list" where
  "insertSorted cmp x [] = [x]"
| "insertSorted cmp x (y # ys) =
     (if cmp x y \<le> 0 then x # y # ys else y # insertSorted cmp x ys)"

fun arraySort :: "('a \<Rightarrow> 'a \<Rightarrow> int) \<Rightarrow> 'a list \<Rightarrow> 'a list" where
  "arraySort cmp [] = []"
| "arraySort cmp (x # xs) = insertSorted cmp x (arraySort cmp xs)"

definition sortRecords :: "(string \<Rightarrow> string \<Rightarrow> int) \<Rightarrow> trade list \<Rightarrow> columnInfo \<Rightarrow> trade list" where
  "sortRecords lc records ci = arraySort (compareRecords lc ci) records"

section \<open>\<^verbatim>\<open>calculateProfitLossForRecords\<close>\<close>

definition newPosition :: position where
  "newPosition = \<lparr>pos_quantity = 0, pos_totalCost = 0\<rparr>"

definition positionOf :: "positions \<Rightarrow> string \<Rightarrow> position" where
  \<comment> \<open>the position the loop works on: \<^verbatim>\<open>positions[code]\<close> after the lazy creation\<close>
  "positionOf ps code = (case ps code of None \<Rightarrow> newPosition | Some p \<Rightarrow> p)"

definition snapQuantity :: "number \<Rightarrow> number" where
  "snapQuantity q = (if \<bar>q\<bar> < 1 / 10 ^ 8 then 0 else q)"

definition snapCost :: "number \<Rightarrow> number" where
  "snapCost c = (if \<bar>c\<bar> < 1 / 10 ^ 6 then 0 else c)"

definition isBuy :: "trade \<Rightarrow> bool" where
  \<comment> \<open>\<^verbatim>\<open>/^buy$/i.test(record.orderType)\<close>\<close>
  "isBuy record = test_buy (String' (orderType record))"

definition isSell :: "trade \<Rightarrow> bool" where
  \<comment> \<open>\<^verbatim>\<open>/^sell$/i.test(record.orderType)\<close>\<close>
  "isSell record = test_sell (String' (orderType record))"

text \<open>One iteration of the loop: \<open>Inl\<close> is the \<^verbatim>\<open>throw\<close>.\<close>

definition processRecord :: "positions \<times> jsarray \<Rightarrow> trade \<Rightarrow> error + positions \<times> jsarray" where
  "processRecord st record =
     (let positions = fst st; profitLossByIndex = snd st in
      if falsy (asxCode record) then Inr (positions, profitLossByIndex)
      else
        let code = String' (asxCode record);
            position = positionOf positions code;
            positions = positions(code \<mapsto> position)
        in
        if isBuy record then
          let cost = avgPrice record * quantity record
          in Inr (positions(code \<mapsto>
                    \<lparr>pos_quantity = pos_quantity position + quantity record,
                     pos_totalCost = pos_totalCost position + cost\<rparr>),
                  profitLossByIndex)
        else if isSell record then
          if quantity record \<le> 0 then Inl (NonPositiveSellQuantity code)
          else if pos_quantity position \<le> 0 \<or> pos_totalCost position \<le> 0
            then Inl (NoExistingPosition code)
          else if quantity record - pos_quantity position > 1 / 10 ^ 8
            then Inl (OversoldPosition code)
          else
            let averageCostPerShare = pos_totalCost position / pos_quantity position;
                proceeds = avgPrice record * quantity record;
                costBasis = averageCostPerShare * quantity record;
                profitLoss = proceeds - costBasis
            in Inr (positions(code \<mapsto>
                      \<lparr>pos_quantity = snapQuantity (pos_quantity position - quantity record),
                       pos_totalCost = snapCost (pos_totalCost position - costBasis)\<rparr>),
                    array_set profitLossByIndex (originalIndex record) (toFixed2 profitLoss))
        else Inr (positions, profitLossByIndex))"

fun processRecords :: "positions \<times> jsarray \<Rightarrow> trade list \<Rightarrow> error + positions \<times> jsarray" where
  "processRecords st [] = Inr st"
| "processRecords st (record # rest) =
     (case processRecord st record of
        Inl e \<Rightarrow> Inl e
      | Inr st' \<Rightarrow> processRecords st' rest)"

definition initialState :: "trade list \<Rightarrow> positions \<times> jsarray" where
  \<comment> \<open>\<^verbatim>\<open>Object.create(null)\<close> and \<^verbatim>\<open>new Array(records.length).fill('')\<close>\<close>
  "initialState records = (Map.empty, replicate (length records) (Some []))"

definition runEngine ::
  "(string \<Rightarrow> string \<Rightarrow> int) \<Rightarrow> trade list \<Rightarrow> columnInfo \<Rightarrow> error + positions \<times> jsarray" where
  \<comment> \<open>the loop of \<^verbatim>\<open>calculateProfitLossForRecords\<close> with the positions it ends with\<close>
  "runEngine lc records ci = processRecords (initialState records) (sortRecords lc records ci)"

definition calculateProfitLossForRecords ::
  "(string \<Rightarrow> string \<Rightarrow> int) \<Rightarrow> trade list \<Rightarrow> columnInfo \<Rightarrow> error + jsarray" where
  "calculateProfitLossForRecords lc records ci =
     (case runEngine lc records ci of Inl e \<Rightarrow> Inl e | Inr st \<Rightarrow> Inr (snd st))"

section \<open>The accounting loop of \<^verbatim>\<open>calculate_profit_loss.js\<close>\<close>

text \<open>
  \<^verbatim>\<open>main\<close> of \<^verbatim>\<open>calculate_profit_loss.js\<close> sorts with the same comparison function
  and then runs its own loop, which never throws: a Sell without a position is given the
  average cost \<open>0\<close>.
\<close>

definition main_processRecord :: "positions \<times> jsarray \<Rightarrow> trade \<Rightarrow> positions \<times> jsarray" where
  "main_processRecord st rec =
     (let positions = fst st; plByIndex = snd st in
      if falsy (asxCode rec) then (positions, plByIndex)
      else
        let code = String' (asxCode rec);
            pos = positionOf positions code;
            positions = positions(code \<mapsto> pos)
        in
        if isBuy rec then
          let cost = avgPrice rec * quantity rec
          in (positions(code \<mapsto>
                \<lparr>pos_quantity = pos_quantity pos + quantity rec,
                 pos_totalCost = pos_totalCost pos + cost\<rparr>),
              plByIndex)
        else if isSell rec then
          let avgCostPerShare =
                (if pos_quantity pos > 0 \<and> pos_totalCost pos > 0
                 then pos_totalCost pos / pos_quantity pos else 0);
              proceeds = avgPrice rec * quantity rec;
              costBasis = avgCostPerShare * quantity rec;
              pl = proceeds - costBasis
          in (positions(code \<mapsto>
                \<lparr>pos_quantity = snapQuantity (pos_quantity pos - quantity rec),
                 pos_totalCost = snapCost (pos_totalCost pos - costBasis)\<rparr>),
              array_set plByIndex (originalIndex rec) (toFixed2 pl))
        else (positions, plByIndex))"

fun main_processRecords :: "positions \<times> jsarray \<Rightarrow> trade list \<Rightarrow> positions \<times> jsarray" where
  "main_processRecords st [] = st"
| "main_processRecords st (rec # rest) = main_processRecords (main_processRecord st rec) rest"

definition main_plByIndex ::
  "(string \<Rightarrow> string \<Rightarrow> int) \<Rightarrow> trade list \<Rightarrow> columnInfo \<Rightarrow> jsarray" where
  "main_plByIndex lc records ci =
     snd (main_processRecords (initialState records) (sortRecords lc records ci))"

text \<open>
  The hypothesis of the comparison of the two loops: every Sell that is processed has a
  positive quantity, a position with positive quantity and positive cost, and a quantity
  within \<open>10\<^sup>-\<^sup>8\<close> of the held one.
\<close>

definition sellValid :: "positions \<Rightarrow> trade \<Rightarrow> bool" where
  "sellValid ps r =
     (0 < quantity r \<and>
      0 < pos_quantity (positionOf ps (String' (asxCode r))) \<and>
      0 < pos_totalCost (positionOf ps (String' (asxCode r))) \<and>
      quantity r - pos_quantity (positionOf ps (String' (asxCode r))) \<le> 1 / 10 ^ 8)"

fun sellsValid :: "positions \<times> jsarray \<Rightarrow> trade list \<Rightarrow> bool" where
  "sellsValid st [] = True"
| "sellsValid st (r # rs) =
     ((if \<not> falsy (asxCode r) \<and> isSell r then sellValid (fst st) r else True) \<and>
      sellsValid (main_processRecord st r) rs)"

section \<open>Predicates of the statements\<close>



text \<open>
  Comparison of strings by the codes of their characters, the ordinal order. It is one
  possible value of the \<open>lc\<close> parameter.
\<close>

definition codeUnitCompare :: "string \<Rightarrow> string \<Rightarrow> int" where
  "codeUnitCompare a b = (if a = b then 0 else if a < b then -1 else 1)"

text \<open>
  A collation in which letters are compared by their place in the alphabet first, whatever
  their case, and lower case comes first only between strings that are equal up to case. On
  strings of ASCII letters and digits this is the order ICU's root collation gives, which
  \<^verbatim>\<open>localeCompare\<close> uses in Node.js for the English locales:
  \<^verbatim>\<open>'a'.localeCompare('B')\<close> is negative, although the code of \<^verbatim>\<open>B\<close> is the smaller.
\<close>

definition alphabeticCompare :: "string \<Rightarrow> string \<Rightarrow> int" where
  "alphabeticCompare a b =
     (let ka = map canonicalize a; kb = map canonicalize b in
      if ka < kb then -1 else if kb < ka then 1
      else if a = b then 0 else if b < a then -1 else 1)"

text \<open>
  What the statements about sorting ask of the \<open>lc\<close> parameter: it is the comparison
  function of a total order on strings. Without it the comparison function of
  \<^verbatim>\<open>sortRecords\<close> is not consistent, and ECMAScript leaves the result of
  \<^verbatim>\<open>sort\<close> to the implementation.
\<close>

definition collation :: "(string \<Rightarrow> string \<Rightarrow> int) \<Rightarrow> bool" where
  "collation lc =
     ((\<forall>a b. lc a b = 0 \<longleftrightarrow> a = b) \<and>
      (\<forall>a b. lc a b < 0 \<longleftrightarrow> 0 < lc b a) \<and>
      (\<forall>a b c. lc a b < 0 \<and> lc b c < 0 \<longrightarrow> lc a c < 0))"





section \<open>\<^verbatim>\<open>toNumber\<close> and \<^verbatim>\<open>parseTradeDate\<close>\<close>

















section \<open>\<^verbatim>\<open>parseCsvLine\<close> and \<^verbatim>\<open>buildOutputCsv\<close>\<close>

text \<open>\<^verbatim>\<open>Array.prototype.join\<close> on an array of strings.\<close>

fun join :: "string \<Rightarrow> string list \<Rightarrow> string" where
  "join sep [] = []"
| "join sep [x] = x"
| "join sep (x # y # ys) = x @ sep @ join sep (y # ys)"

text \<open>
  \<^verbatim>\<open>String.prototype.split\<close> with a separator of one character; the empty string
  gives one empty field.
\<close>

fun splitChar :: "char \<Rightarrow> string \<Rightarrow> string list" where
  "splitChar c [] = [[]]"
| "splitChar c (x # xs) =
     (if x = c then [] # splitChar c xs
      else (case splitChar c xs of [] \<Rightarrow> [[x]] | f # fs \<Rightarrow> (x # f) # fs))"

definition parseCsvLine :: "string \<Rightarrow> string list" where
  "parseCsvLine s = splitChar (CHR '','') s"

definition orEmpty :: "string option \<Rightarrow> string" where
  \<comment> \<open>\<^verbatim>\<open>value ?? ''\<close> on a string or \<^verbatim>\<open>undefined\<close>\<close>
  "orEmpty v = (case v of None \<Rightarrow> [] | Some s \<Rightarrow> s)"

text \<open>
  The array \<^verbatim>\<open>[headerWithProfitLoss, ...dataLines]\<close> of \<^verbatim>\<open>buildOutputCsv\<close>, and the
  text the function returns.
\<close>

definition outputLines :: "string \<Rightarrow> trade list \<Rightarrow> jsarray \<Rightarrow> string list" where
  "outputLines headerLine records profitLossByIndex =
     (headerLine @ '',ProfitLoss'') #
     map (\<lambda>record. line record @ '','' @ orEmpty (array_get profitLossByIndex (originalIndex record)))
       records"

definition buildOutputCsv :: "string \<Rightarrow> trade list \<Rightarrow> jsarray \<Rightarrow> string" where
  "buildOutputCsv headerLine records profitLossByIndex =
     join [CHR 0x0A] (outputLines headerLine records profitLossByIndex) @ [CHR 0x0A]"

text \<open>A text without comma and without line feed, and an array of such texts.\<close>

definition plainText :: "string \<Rightarrow> bool" where
  "plainText s = (CHR '','' \<notin> set s \<and> CHR 0x0A \<notin> set s)"

definition plainArray :: "jsarray \<Rightarrow> bool" where
  "plainArray a = (\<forall>s. Some s \<in> set a \<longrightarrow> plainText s)"

section \<open>Example rows\<close>

definition day :: "int \<Rightarrow> int" where
  \<comment> \<open>the time value of the \<open>n\<close>-th day of January 2024, 00:00 UTC\<close>
  "day n = 1704067200000 + (n - 1) * 86400000"

definition row :: "nat \<Rightarrow> string \<Rightarrow> string \<Rightarrow> int \<Rightarrow> number \<Rightarrow> number \<Rightarrow> trade" where
  \<comment> \<open>a record of a ledger whose only columns are the five required ones\<close>
  "row i code kind date price qty =
     \<lparr>originalIndex = i, line = [], cols = [], asxCode = Some code, orderType = Some kind,
      tradeDate = date, avgPrice = price, quantity = qty\<rparr>"


section \<open>Evaluation rules\<close>

lemma decimalDigits_numeral:
  "decimalDigits (numeral k) =
     (if (numeral k :: nat) < 10 then [digitChar (numeral k)]
      else decimalDigits (numeral k div 10) @ [digitChar (numeral k mod 10)])"
  by (rule decimalDigits.simps)

lemma decimalDigits_0: "decimalDigits 0 = ''0''"
  by (simp add: decimalDigits.simps digitChar_def)

lemma decimalDigits_1: "decimalDigits (Suc 0) = ''1''"
  by (simp add: decimalDigits.simps digitChar_def)

lemmas toFixed2_eval =
  toFixed2_def Let_def decimalDigits_numeral decimalDigits_1 decimalDigits_0 digitChar_def

lemmas regex_eval = isBuy_def isSell_def test_buy_def test_sell_def canonicalize_def String'_def

lemmas step_eval =
  processRecord_def falsy_def positionOf_def newPosition_def snapQuantity_def snapCost_def
  array_set_def array_get_def regex_eval

lemmas engine_eval =
  calculateProfitLossForRecords_def runEngine_def sortRecords_def compareRecords_def
  initialState_def row_def day_def step_eval

section \<open>The step on a Sell\<close>

lemma test_sell_not_buy: "test_sell s \<Longrightarrow> \<not> test_buy s"
  by (auto simp: test_sell_def test_buy_def dest: arg_cong [where f = length])

lemma isSell_not_isBuy: "isSell r \<Longrightarrow> \<not> isBuy r"
  by (simp add: isSell_def isBuy_def test_sell_not_buy)





lemma processRecords_append:
  "processRecords st (xs @ ys) =
     (case processRecords st xs of Inl e \<Rightarrow> Inl e | Inr st' \<Rightarrow> processRecords st' ys)"
  by (induction xs arbitrary: st) (auto split: sum.splits)

lemma processRecords_abort:
  "processRecords st pre = Inr st1 \<Longrightarrow> processRecord st1 r = Inl e \<Longrightarrow>
   processRecords st (pre @ r # post) = Inl e"
  by (simp add: processRecords_append)

lemma processRecord_sell_fail:
  assumes "\<not> falsy (asxCode r)" and "isSell r"
  shows "quantity r \<le> 0 \<Longrightarrow>
           processRecord (ps, plbi) r = Inl (NonPositiveSellQuantity (String' (asxCode r)))"
    and "0 < quantity r \<Longrightarrow>
         pos_quantity (positionOf ps (String' (asxCode r))) \<le> 0 \<or>
         pos_totalCost (positionOf ps (String' (asxCode r))) \<le> 0 \<Longrightarrow>
           processRecord (ps, plbi) r = Inl (NoExistingPosition (String' (asxCode r)))"
    and "0 < quantity r \<Longrightarrow>
         0 < pos_quantity (positionOf ps (String' (asxCode r))) \<Longrightarrow>
         0 < pos_totalCost (positionOf ps (String' (asxCode r))) \<Longrightarrow>
         1 / 10 ^ 8 < quantity r - pos_quantity (positionOf ps (String' (asxCode r))) \<Longrightarrow>
           processRecord (ps, plbi) r = Inl (OversoldPosition (String' (asxCode r)))"
  using assms isSell_not_isBuy [of r]
  by (simp_all add: processRecord_def Let_def)

text \<open>
  C2. A Sell with a non-empty instrument code fails with \<open>NonPositiveSellQuantity\<close> when
  its quantity is not positive; otherwise with \<open>NoExistingPosition\<close> when the held quantity
  or the total cost of the instrument is not positive; otherwise with \<open>OversoldPosition\<close> when
  its quantity exceeds the held quantity by more than \<open>10\<^sup>-\<^sup>8\<close>. A failure at a record
  of the sorted sequence is the result of the whole call: no array of results is returned.
\<close>

theorem sell_checks_abort_run:
  assumes "\<not> falsy (asxCode r)" and "isSell r"
  shows "(quantity r \<le> 0 \<longrightarrow>
            processRecord (ps, plbi) r = Inl (NonPositiveSellQuantity (String' (asxCode r)))) \<and>
         (0 < quantity r \<and>
            (pos_quantity (positionOf ps (String' (asxCode r))) \<le> 0 \<or>
             pos_totalCost (positionOf ps (String' (asxCode r))) \<le> 0) \<longrightarrow>
            processRecord (ps, plbi) r = Inl (NoExistingPosition (String' (asxCode r)))) \<and>
         (0 < quantity r \<and>
            0 < pos_quantity (positionOf ps (String' (asxCode r))) \<and>
            0 < pos_totalCost (positionOf ps (String' (asxCode r))) \<and>
            1 / 10 ^ 8 < quantity r - pos_quantity (positionOf ps (String' (asxCode r))) \<longrightarrow>
            processRecord (ps, plbi) r = Inl (OversoldPosition (String' (asxCode r)))) \<and>
         (\<forall>e pre post.
            sortRecords lc records ci = pre @ r # post \<and>
            processRecords (initialState records) pre = Inr (ps, plbi) \<and>
            processRecord (ps, plbi) r = Inl e \<longrightarrow>
            calculateProfitLossForRecords lc records ci = Inl e)"
  using processRecord_sell_fail [OF assms, of ps plbi]
  by (auto simp: calculateProfitLossForRecords_def runEngine_def processRecords_abort)

theorem sell_checks_abort_run_witness:
  "calculateProfitLossForRecords codeUnitCompare
     [row 0 ''XYZ'' ''Buy'' (day 1) 10 5, row 1 ''XYZ'' ''Sell'' (day 2) 12 6]
     \<lparr>confirmationIdx = -1\<rparr> = Inl (OversoldPosition ''XYZ'')"
proof -
  let ?b = "row 0 ''XYZ'' ''Buy'' (day 1) 10 5"
  let ?r = "row 1 ''XYZ'' ''Sell'' (day 2) 12 6"
  let ?ci = "\<lparr>confirmationIdx = -1\<rparr>"
  let ?ps = "[''XYZ'' \<mapsto> \<lparr>pos_quantity = 5, pos_totalCost = 50\<rparr>]"
  let ?a = "[Some [], Some []] :: jsarray"
  have h1: "\<not> falsy (asxCode ?r)" by (simp add: row_def falsy_def)
  have h2: "isSell ?r" by (simp add: row_def regex_eval)
  have s: "sortRecords codeUnitCompare [?b, ?r] ?ci = [?b] @ ?r # []"
    by (simp add: sortRecords_def compareRecords_def row_def day_def)
  have p: "processRecords (initialState [?b, ?r]) [?b] = Inr (?ps, ?a)"
    by (simp add: initialState_def row_def step_eval)
  have c: "0 < quantity ?r \<and>
            0 < pos_quantity (positionOf ?ps (String' (asxCode ?r))) \<and>
            0 < pos_totalCost (positionOf ?ps (String' (asxCode ?r))) \<and>
            1 / 10 ^ 8 < quantity ?r - pos_quantity (positionOf ?ps (String' (asxCode ?r)))"
    by (simp add: row_def positionOf_def String'_def)
  have n: "String' (asxCode ?r) = ''XYZ''" by (simp add: row_def String'_def)
  from sell_checks_abort_run [OF h1 h2, of ?ps ?a codeUnitCompare "[?b, ?r]" ?ci] s p c n
  show ?thesis by metis
qed


section \<open>Records that are skipped\<close>

lemma processRecord_skip:
  "falsy (asxCode r) \<Longrightarrow> processRecord (ps, plbi) r = Inr (ps, plbi)"
  by (simp add: processRecord_def)

lemma processRecord_other:
  "\<not> falsy (asxCode r) \<Longrightarrow> \<not> isBuy r \<Longrightarrow> \<not> isSell r \<Longrightarrow>
   processRecord (ps, plbi) r =
     Inr (ps(String' (asxCode r) \<mapsto> positionOf ps (String' (asxCode r))), plbi)"
  by (simp add: processRecord_def Let_def)

lemma positionOf_created: "positionOf (ps(c \<mapsto> positionOf ps c)) d = positionOf ps d"
  by (simp add: positionOf_def)

lemma created_keeps: "ps d = Some p \<Longrightarrow> (ps(c \<mapsto> positionOf ps c)) d = Some p"
  by (auto simp: positionOf_def)

text \<open>
  C7. A record with an empty (or missing) instrument code, or whose order type is neither
  Buy nor Sell, does not fail, leaves \<^verbatim>\<open>profitLossByIndex\<close> as it was (so nothing is
  recorded at its \<open>originalIndex\<close>), and leaves the quantity and the cost of every
  instrument as they were: every existing entry of \<^verbatim>\<open>positions\<close> is unchanged, and the
  only possible change is the entry with quantity 0 and cost 0 that the loop creates for a
  non-empty code seen for the first time. With an empty code \<^verbatim>\<open>positions\<close> is not
  touched at all.
\<close>

theorem inert_records_leave_state:
  assumes "falsy (asxCode r) \<or> (\<not> isBuy r \<and> \<not> isSell r)"
  shows "\<exists>ps'. processRecord (ps, plbi) r = Inr (ps', plbi) \<and>
           (\<forall>code. positionOf ps' code = positionOf ps code) \<and>
           (\<forall>code p. ps code = Some p \<longrightarrow> ps' code = Some p) \<and>
           (falsy (asxCode r) \<longrightarrow> ps' = ps)"
proof (cases "falsy (asxCode r)")
  case True
  then show ?thesis by (simp add: processRecord_skip)
next
  case False
  with assms have "\<not> isBuy r" "\<not> isSell r" by auto
  with False show ?thesis
    using created_keeps [of ps _ _ "String' (asxCode r)"]
    by (simp add: processRecord_other positionOf_created)
qed

theorem inert_records_leave_state_witness:
  "\<exists>ps'. processRecord ([''AAA'' \<mapsto> \<lparr>pos_quantity = 1, pos_totalCost = 5\<rparr>], [Some [], Some []])
            (row 1 ''AAA'' ''Dividend'' (day 2) 1 1) = Inr (ps', [Some [], Some []]) \<and>
         (\<forall>code. positionOf ps' code =
            positionOf [''AAA'' \<mapsto> \<lparr>pos_quantity = 1, pos_totalCost = 5\<rparr>] code)"
proof -
  let ?r = "row 1 ''AAA'' ''Dividend'' (day 2) 1 1"
  have "falsy (asxCode ?r) \<or> (\<not> isBuy ?r \<and> \<not> isSell ?r)"
    by (simp add: row_def regex_eval)
  from inert_records_leave_state [OF this] show ?thesis by blast
qed

section \<open>The order type\<close>

lemma canonicalize_B: "canonicalize c = CHR ''B'' \<longleftrightarrow> c = CHR ''b'' \<or> c = CHR ''B''"
  by (simp add: canonicalize_def)
lemma canonicalize_U: "canonicalize c = CHR ''U'' \<longleftrightarrow> c = CHR ''u'' \<or> c = CHR ''U''"
  by (simp add: canonicalize_def)
lemma canonicalize_Y: "canonicalize c = CHR ''Y'' \<longleftrightarrow> c = CHR ''y'' \<or> c = CHR ''Y''"
  by (simp add: canonicalize_def)
lemma canonicalize_S: "canonicalize c = CHR ''S'' \<longleftrightarrow> c = CHR ''s'' \<or> c = CHR ''S''"
  by (simp add: canonicalize_def)
lemma canonicalize_E: "canonicalize c = CHR ''E'' \<longleftrightarrow> c = CHR ''e'' \<or> c = CHR ''E''"
  by (simp add: canonicalize_def)
lemma canonicalize_L: "canonicalize c = CHR ''L'' \<longleftrightarrow> c = CHR ''l'' \<or> c = CHR ''L''"
  by (simp add: canonicalize_def)

lemma test_buy_iff:
  "test_buy s \<longleftrightarrow>
     (\<exists>c1 c2 c3. s = [c1, c2, c3] \<and> (c1 = CHR ''b'' \<or> c1 = CHR ''B'') \<and>
        (c2 = CHR ''u'' \<or> c2 = CHR ''U'') \<and> (c3 = CHR ''y'' \<or> c3 = CHR ''Y''))"
proof -
  have "test_buy s \<longleftrightarrow>
    (\<exists>c1 c2 c3. s = [c1, c2, c3] \<and> canonicalize c1 = CHR ''B'' \<and>
       canonicalize c2 = CHR ''U'' \<and> canonicalize c3 = CHR ''Y'')"
    unfolding test_buy_def by (auto simp: map_eq_Cons_conv)
  then show ?thesis by (simp only: canonicalize_B canonicalize_U canonicalize_Y)
qed

lemma test_sell_iff:
  "test_sell s \<longleftrightarrow>
     (\<exists>c1 c2 c3 c4. s = [c1, c2, c3, c4] \<and> (c1 = CHR ''s'' \<or> c1 = CHR ''S'') \<and>
        (c2 = CHR ''e'' \<or> c2 = CHR ''E'') \<and> (c3 = CHR ''l'' \<or> c3 = CHR ''L'') \<and>
        (c4 = CHR ''l'' \<or> c4 = CHR ''L''))"
proof -
  have "test_sell s \<longleftrightarrow>
    (\<exists>c1 c2 c3 c4. s = [c1, c2, c3, c4] \<and> canonicalize c1 = CHR ''S'' \<and>
       canonicalize c2 = CHR ''E'' \<and> canonicalize c3 = CHR ''L'' \<and> canonicalize c4 = CHR ''L'')"
    unfolding test_sell_def by (auto simp: map_eq_Cons_conv)
  then show ?thesis by (simp only: canonicalize_S canonicalize_E canonicalize_L)
qed

text \<open>
  C9. The order type is matched as it stands in the row, with no trimming and no removal
  of quotes: a record is a Buy exactly when the field is the three letters b, u, y in any
  mix of cases, and a Sell exactly when it is the four letters s, e, l, l in any mix of
  cases. A field with a leading blank (\<^verbatim>\<open> Buy\<close>) or inside quotes is neither, and a
  record that is neither does not fail, records nothing and leaves the quantity and the
  cost of every instrument as they were.
\<close>

theorem order_kind_untrimmed:
  "(isBuy r \<longleftrightarrow>
      (\<exists>c1 c2 c3. orderType r = Some [c1, c2, c3] \<and> (c1 = CHR ''b'' \<or> c1 = CHR ''B'') \<and>
        (c2 = CHR ''u'' \<or> c2 = CHR ''U'') \<and> (c3 = CHR ''y'' \<or> c3 = CHR ''Y''))) \<and>
   (isSell r \<longleftrightarrow>
      (\<exists>c1 c2 c3 c4. orderType r = Some [c1, c2, c3, c4] \<and> (c1 = CHR ''s'' \<or> c1 = CHR ''S'') \<and>
        (c2 = CHR ''e'' \<or> c2 = CHR ''E'') \<and> (c3 = CHR ''l'' \<or> c3 = CHR ''L'') \<and>
        (c4 = CHR ''l'' \<or> c4 = CHR ''L''))) \<and>
   (orderType r = Some '' Buy'' \<or> orderType r = Some [CHR 0x22, CHR ''S'', CHR ''e'', CHR ''l'', CHR ''l'', CHR 0x22]
      \<longrightarrow> \<not> isBuy r \<and> \<not> isSell r) \<and>
   (\<not> isBuy r \<and> \<not> isSell r \<longrightarrow>
      (\<exists>ps'. processRecord (ps, plbi) r = Inr (ps', plbi) \<and>
         (\<forall>code. positionOf ps' code = positionOf ps code)))"
proof (intro conjI)
  show "isBuy r \<longleftrightarrow>
      (\<exists>c1 c2 c3. orderType r = Some [c1, c2, c3] \<and> (c1 = CHR ''b'' \<or> c1 = CHR ''B'') \<and>
        (c2 = CHR ''u'' \<or> c2 = CHR ''U'') \<and> (c3 = CHR ''y'' \<or> c3 = CHR ''Y''))"
    by (cases "orderType r") (simp_all add: isBuy_def String'_def test_buy_iff)
  show "isSell r \<longleftrightarrow>
      (\<exists>c1 c2 c3 c4. orderType r = Some [c1, c2, c3, c4] \<and> (c1 = CHR ''s'' \<or> c1 = CHR ''S'') \<and>
        (c2 = CHR ''e'' \<or> c2 = CHR ''E'') \<and> (c3 = CHR ''l'' \<or> c3 = CHR ''L'') \<and>
        (c4 = CHR ''l'' \<or> c4 = CHR ''L''))"
    by (cases "orderType r") (simp_all add: isSell_def String'_def test_sell_iff)
  show "orderType r = Some '' Buy'' \<or> orderType r = Some [CHR 0x22, CHR ''S'', CHR ''e'', CHR ''l'', CHR ''l'', CHR 0x22]
      \<longrightarrow> \<not> isBuy r \<and> \<not> isSell r"
    by (auto simp: isBuy_def isSell_def String'_def test_buy_iff test_sell_iff)
  show "\<not> isBuy r \<and> \<not> isSell r \<longrightarrow>
      (\<exists>ps'. processRecord (ps, plbi) r = Inr (ps', plbi) \<and>
         (\<forall>code. positionOf ps' code = positionOf ps code))"
  proof (intro impI)
    assume o: "\<not> isBuy r \<and> \<not> isSell r"
    show "\<exists>ps'. processRecord (ps, plbi) r = Inr (ps', plbi) \<and>
         (\<forall>code. positionOf ps' code = positionOf ps code)"
    proof (cases "falsy (asxCode r)")
      case True
      then show ?thesis by (simp add: processRecord_skip)
    next
      case False
      with o show ?thesis by (simp add: processRecord_other positionOf_created)
    qed
  qed
qed

theorem order_kind_untrimmed_witness:
  "\<not> isBuy (row 0 ''ABC'' '' Buy'' (day 1) 10 10) \<and>
   \<not> isSell (row 0 ''ABC'' '' Buy'' (day 1) 10 10) \<and>
   (\<exists>ps'. processRecord (Map.empty, [Some []]) (row 0 ''ABC'' '' Buy'' (day 1) 10 10) =
            Inr (ps', [Some []]) \<and>
          (\<forall>code. positionOf ps' code = positionOf Map.empty code))"
proof -
  let ?r = "row 0 ''ABC'' '' Buy'' (day 1) 10 10"
  have o: "orderType ?r = Some '' Buy''" by (simp add: row_def)
  from order_kind_untrimmed [of ?r Map.empty "[Some []]"] o show ?thesis by blast
qed

section \<open>The sign of the positions\<close>












text \<open>
  The check of a Sell lets the quantity exceed the held one by up to \<open>10\<^sup>-\<^sup>8\<close>. Such a
  sale is accepted too and can leave a negative total cost, which is why the statement
  above asks for sales within the holding: after a Buy of 1 at 1000, a Sell of 1.000000005
  leaves the quantity 0 and the total cost \<open>-0.000005\<close>.
\<close>

lemma tolerated_oversell_negative_cost:
  "\<exists>ps plbi.
     runEngine codeUnitCompare
       [row 0 ''ABC'' ''Buy'' (day 1) 1000 1, row 1 ''ABC'' ''Sell'' (day 2) 1000 (1000000005 / 1000000000)]
       \<lparr>confirmationIdx = -1\<rparr> = Inr (ps, plbi) \<and>
     pos_quantity (positionOf ps ''ABC'') = 0 \<and> pos_totalCost (positionOf ps ''ABC'') < 0"
  by (simp add: engine_eval toFixed2_eval)

section \<open>The two loops\<close>

lemma processRecord_refines:
  assumes "if \<not> falsy (asxCode r) \<and> isSell r then sellValid (fst st) r else True"
  shows "processRecord st r = Inr (main_processRecord st r)"
proof (cases "\<not> falsy (asxCode r) \<and> isSell r")
  case True
  with assms have "sellValid (fst st) r" by simp
  with True isSell_not_isBuy [of r] show ?thesis
    by (simp add: processRecord_def main_processRecord_def sellValid_def Let_def)
next
  case False
  then show ?thesis
    by (auto simp: processRecord_def main_processRecord_def Let_def)
qed

lemma processRecords_refines:
  "sellsValid st rs \<Longrightarrow> processRecords st rs = Inr (main_processRecords st rs)"
proof (induction rs arbitrary: st)
  case Nil
  show ?case by simp
next
  case (Cons r rs)
  from Cons.prems have 1: "processRecord st r = Inr (main_processRecord st r)"
    by (intro processRecord_refines) simp
  from Cons.prems have "sellsValid (main_processRecord st r) rs" by simp
  from Cons.IH [OF this] 1 show ?case by simp
qed

text \<open>
  C10. When every processed Sell has a positive quantity, meets a position with positive
  quantity and positive total cost, and does not exceed the held quantity by more than
  \<open>10\<^sup>-\<^sup>8\<close>, \<^verbatim>\<open>calculateProfitLossForRecords\<close> of \<^verbatim>\<open>calculate_pl.js\<close> returns, and
  its array is the \<^verbatim>\<open>plByIndex\<close> that the loop of \<^verbatim>\<open>calculate_profit_loss.js\<close>
  computes from the same records.
\<close>

theorem engines_agree_on_valid_sells:
  assumes "sellsValid (initialState records) (sortRecords lc records ci)"
  shows "calculateProfitLossForRecords lc records ci = Inr (main_plByIndex lc records ci)"
  using processRecords_refines [OF assms]
  by (simp add: calculateProfitLossForRecords_def runEngine_def main_plByIndex_def)

lemmas main_eval = main_plByIndex_def main_processRecord_def sellValid_def

theorem engines_agree_on_valid_sells_witness:
  "calculateProfitLossForRecords codeUnitCompare
     [row 0 ''AAA'' ''Buy'' (day 1) 10 10, row 1 ''AAA'' ''Sell'' (day 2) 12 4]
     \<lparr>confirmationIdx = -1\<rparr> = Inr [Some [], Some ''8.00''] \<and>
   main_plByIndex codeUnitCompare
     [row 0 ''AAA'' ''Buy'' (day 1) 10 10, row 1 ''AAA'' ''Sell'' (day 2) 12 4]
     \<lparr>confirmationIdx = -1\<rparr> = [Some [], Some ''8.00'']"
proof -
  let ?rs = "[row 0 ''AAA'' ''Buy'' (day 1) 10 10, row 1 ''AAA'' ''Sell'' (day 2) 12 4]"
  let ?ci = "\<lparr>confirmationIdx = -1\<rparr>"
  have v: "sellsValid (initialState ?rs) (sortRecords codeUnitCompare ?rs ?ci)"
    by (simp add: engine_eval main_eval)
  have m: "main_plByIndex codeUnitCompare ?rs ?ci = [Some [], Some ''8.00'']"
    by (simp add: engine_eval main_eval toFixed2_eval)
  from engines_agree_on_valid_sells [OF v] m show ?thesis by simp
qed

section \<open>The order of processing\<close>














lemma collation_alphabeticCompare: "collation alphabeticCompare"
  unfolding collation_def alphabeticCompare_def Let_def by auto





section \<open>Reordering the input\<close>




















section \<open>The output\<close>

lemma splitChar_not_Nil: "splitChar c xs \<noteq> []"
  by (induction xs) (auto split: list.splits)

lemma splitChar_none: "c \<notin> set xs \<Longrightarrow> splitChar c xs = [xs]"
  by (induction xs) auto

lemma splitChar_prefix: "c \<notin> set xs \<Longrightarrow> splitChar c (xs @ c # rest) = xs # splitChar c rest"
  by (induction xs) auto

lemma splitChar_suffix: "c \<notin> set ys \<Longrightarrow> splitChar c (xs @ c # ys) = splitChar c xs @ [ys]"
proof (induction xs)
  case Nil
  then show ?case by (simp add: splitChar_none)
next
  case (Cons x xs)
  then show ?case
    using splitChar_not_Nil [of c xs] by (cases "splitChar c xs") auto
qed

lemma splitChar_join:
  "xs \<noteq> [] \<Longrightarrow> \<forall>x\<in>set xs. c \<notin> set x \<Longrightarrow> splitChar c (join [c] xs @ [c]) = xs @ [[]]"
proof (induction "[c]" xs rule: join.induct)
  case 1
  then show ?case by simp
next
  case (2 x)
  then show ?case using splitChar_suffix [of c "[]" x] by (simp add: splitChar_none)
next
  case (3 x y ys)
  then show ?case by (simp add: splitChar_prefix)
qed

lemma digitChar_plain:
  assumes "d < 10"
  shows "digitChar d \<noteq> CHR '','' \<and> digitChar d \<noteq> CHR 0x0A"
proof -
  from assms have "d \<in> {0, 1, 2, 3, 4, 5, 6, 7, 8, 9}" by auto
  then show ?thesis by (auto simp: digitChar_def)
qed

lemma decimalDigits_plain:
  "c \<in> set (decimalDigits n) \<Longrightarrow> c \<noteq> CHR '','' \<and> c \<noteq> CHR 0x0A"
proof (induction n rule: decimalDigits.induct)
  case (1 n)
  show ?case
  proof (cases "n < 10")
    case True
    with "1.prems" have "c = digitChar n"
      by (subst (asm) decimalDigits.simps) simp
    with True digitChar_plain show ?thesis by simp
  next
    case False
    with "1.prems" have "c \<in> set (decimalDigits (n div 10)) \<or> c = digitChar (n mod 10)"
      by (subst (asm) decimalDigits.simps) auto
    then show ?thesis
    proof
      assume "c \<in> set (decimalDigits (n div 10))"
      with "1.IH" [OF False] show ?thesis by simp
    next
      assume "c = digitChar (n mod 10)"
      moreover have "n mod 10 < 10" by simp
      ultimately show ?thesis using digitChar_plain by simp
    qed
  qed
qed

lemma plainText_toFixed2: "plainText (toFixed2 x)"
proof -
  define n where "n = nat \<lfloor>\<bar>x\<bar> * 100 + 1 / 2\<rfloor>"
  have eq: "toFixed2 x = (if x < 0 then ''-'' else []) @ decimalDigits (n div 100) @ ''.'' @
         [digitChar (n mod 100 div 10), digitChar (n mod 10)]"
    by (simp add: toFixed2_def n_def Let_def)
  have "n mod 100 div 10 < 10"
    by (simp add: less_mult_imp_div_less)
  then have a: "digitChar (n mod 100 div 10) \<noteq> CHR '','' \<and> digitChar (n mod 100 div 10) \<noteq> CHR 0x0A"
    by (rule digitChar_plain)
  have "n mod 10 < 10" by simp
  then have b: "digitChar (n mod 10) \<noteq> CHR '','' \<and> digitChar (n mod 10) \<noteq> CHR 0x0A"
    by (rule digitChar_plain)
  have c: "CHR '','' \<notin> set (decimalDigits (n div 100)) \<and> CHR 0x0A \<notin> set (decimalDigits (n div 100))"
    using decimalDigits_plain by blast
  show ?thesis
    unfolding plainText_def eq using a b c by auto
qed

lemma set_array_set: "Some s \<in> set (array_set a i v) \<Longrightarrow> s = v \<or> Some s \<in> set a"
proof (cases "i < length a")
  case True
  assume "Some s \<in> set (array_set a i v)"
  with True have "Some s \<in> insert (Some v) (set a)"
    using set_update_subset_insert [of a i "Some v"] by (auto simp: array_set_def)
  then show ?thesis by auto
next
  case False
  assume "Some s \<in> set (array_set a i v)"
  with False show ?thesis by (auto simp: array_set_def)
qed

lemma plainArray_set: "plainArray a \<Longrightarrow> plainText v \<Longrightarrow> plainArray (array_set a i v)"
  unfolding plainArray_def using set_array_set by blast

lemma processRecord_array:
  "processRecord (ps, ra) r = Inr (ps', ra') \<Longrightarrow>
   ra' = ra \<or> (\<exists>x. ra' = array_set ra (originalIndex r) (toFixed2 x))"
  by (simp add: processRecord_def Let_def split: if_splits) blast

lemma processRecord_plain:
  assumes "plainArray ra" and "processRecord (ps, ra) r = Inr (ps', ra')"
  shows "plainArray ra'"
  using processRecord_array [OF assms(2)] assms(1) plainArray_set plainText_toFixed2 by auto

lemma processRecords_plain:
  "plainArray (snd st) \<Longrightarrow> processRecords st rs = Inr st' \<Longrightarrow> plainArray (snd st')"
proof (induction rs arbitrary: st)
  case Nil
  then show ?case by simp
next
  case (Cons r rs)
  from Cons.prems(2) obtain st1 where 1: "processRecord st r = Inr st1"
    and 2: "processRecords st1 rs = Inr st'"
    by (auto split: sum.splits)
  have "plainArray (snd st1)"
    using processRecord_plain [of "snd st" "fst st" r "fst st1" "snd st1"] Cons.prems(1) 1 by simp
  from Cons.IH [OF this 2] show ?case .
qed

lemma calculate_plain:
  assumes "calculateProfitLossForRecords lc records ci = Inr plbi"
  shows "plainArray plbi"
proof -
  from assms obtain st where st: "processRecords (initialState records) (sortRecords lc records ci) = Inr st"
    and p: "plbi = snd st"
    by (auto simp: calculateProfitLossForRecords_def runEngine_def split: sum.splits)
  have "plainArray (snd (initialState records))"
    by (simp add: initialState_def plainArray_def plainText_def)
  from processRecords_plain [OF this st] p show ?thesis by simp
qed

lemma plainText_orEmpty: "plainArray a \<Longrightarrow> plainText (orEmpty (array_get a i))"
  by (auto simp: plainArray_def orEmpty_def array_get_def plainText_def split: option.splits)

text \<open>
  C6. When the engine returns, the output has the header line followed by one line for
  each record, in the order of the input; the header is the input header with the one
  field \<^verbatim>\<open>ProfitLoss\<close> appended; the line of a record is its input line with one field
  appended, the entry of the result at the record's \<open>originalIndex\<close> or the empty string
  when there is none, and the fields before it are the fields of the input line. When the
  header and the lines contain no line feed, the lines of the returned text are exactly
  these (followed by the empty piece after the final line feed).
\<close>

theorem output_keeps_rows_and_appends_one_field:
  assumes "calculateProfitLossForRecords lc records ci = Inr plbi"
  shows "length (outputLines headerLine records plbi) = Suc (length records) \<and>
         outputLines headerLine records plbi ! 0 = headerLine @ '',ProfitLoss'' \<and>
         parseCsvLine (headerLine @ '',ProfitLoss'') = parseCsvLine headerLine @ [''ProfitLoss''] \<and>
         (\<forall>i<length records.
            outputLines headerLine records plbi ! Suc i =
              line (records ! i) @ '','' @ orEmpty (array_get plbi (originalIndex (records ! i))) \<and>
            parseCsvLine (outputLines headerLine records plbi ! Suc i) =
              parseCsvLine (line (records ! i)) @
              [orEmpty (array_get plbi (originalIndex (records ! i)))]) \<and>
         (CHR 0x0A \<notin> set headerLine \<and> (\<forall>r\<in>set records. CHR 0x0A \<notin> set (line r)) \<longrightarrow>
            splitChar (CHR 0x0A) (buildOutputCsv headerLine records plbi) =
              outputLines headerLine records plbi @ [[]])"
proof (intro conjI allI impI)
  have plain: "plainText (orEmpty (array_get plbi k))" for k
    using calculate_plain [OF assms] by (rule plainText_orEmpty)
  show "length (outputLines headerLine records plbi) = Suc (length records)"
    by (simp add: outputLines_def)
  show "outputLines headerLine records plbi ! 0 = headerLine @ '',ProfitLoss''"
    by (simp add: outputLines_def)
  show "parseCsvLine (headerLine @ '',ProfitLoss'') = parseCsvLine headerLine @ [''ProfitLoss'']"
    using splitChar_suffix [of "CHR '',''" "''ProfitLoss''" headerLine]
    by (simp add: parseCsvLine_def)
  show "outputLines headerLine records plbi ! Suc i =
      line (records ! i) @ '','' @ orEmpty (array_get plbi (originalIndex (records ! i)))"
    if "i < length records" for i
    using that by (simp add: outputLines_def)
  show "parseCsvLine (outputLines headerLine records plbi ! Suc i) =
      parseCsvLine (line (records ! i)) @ [orEmpty (array_get plbi (originalIndex (records ! i)))]"
    if "i < length records" for i
    using that plain [of "originalIndex (records ! i)"]
      splitChar_suffix [of "CHR '',''" "orEmpty (array_get plbi (originalIndex (records ! i)))"
        "line (records ! i)"]
    by (simp add: outputLines_def parseCsvLine_def plainText_def)
  show "splitChar (CHR 0x0A) (buildOutputCsv headerLine records plbi) =
      outputLines headerLine records plbi @ [[]]"
    if nl: "CHR 0x0A \<notin> set headerLine \<and> (\<forall>r\<in>set records. CHR 0x0A \<notin> set (line r))"
  proof -
    have "\<forall>x\<in>set (outputLines headerLine records plbi). CHR 0x0A \<notin> set x"
      using nl plain by (auto simp: outputLines_def plainText_def)
    moreover have "outputLines headerLine records plbi \<noteq> []"
      by (simp add: outputLines_def)
    ultimately show ?thesis
      unfolding buildOutputCsv_def by (intro splitChar_join)
  qed
qed

lemmas output_eval = outputLines_def buildOutputCsv_def orEmpty_def array_get_def

theorem output_keeps_rows_and_appends_one_field_witness:
  "calculateProfitLossForRecords codeUnitCompare
     [(row 0 ''AAA'' ''Buy'' (day 1) 10 10)\<lparr>line := ''AAA,Buy,2024-01-01,10,10''\<rparr>,
      (row 1 ''AAA'' ''Sell'' (day 2) 12 4)\<lparr>line := ''AAA,Sell,2024-01-02,12,4''\<rparr>]
     \<lparr>confirmationIdx = -1\<rparr> = Inr [Some [], Some ''8.00''] \<and>
   splitChar (CHR 0x0A)
     (buildOutputCsv ''AsxCode,Order Type,Trade Date,Avg Price,Quantity''
        [(row 0 ''AAA'' ''Buy'' (day 1) 10 10)\<lparr>line := ''AAA,Buy,2024-01-01,10,10''\<rparr>,
         (row 1 ''AAA'' ''Sell'' (day 2) 12 4)\<lparr>line := ''AAA,Sell,2024-01-02,12,4''\<rparr>]
        [Some [], Some ''8.00'']) =
     [''AsxCode,Order Type,Trade Date,Avg Price,Quantity,ProfitLoss'',
      ''AAA,Buy,2024-01-01,10,10,'', ''AAA,Sell,2024-01-02,12,4,8.00'', []]"
proof -
  let ?rs = "[(row 0 ''AAA'' ''Buy'' (day 1) 10 10)\<lparr>line := ''AAA,Buy,2024-01-01,10,10''\<rparr>,
      (row 1 ''AAA'' ''Sell'' (day 2) 12 4)\<lparr>line := ''AAA,Sell,2024-01-02,12,4''\<rparr>]"
  let ?h = "''AsxCode,Order Type,Trade Date,Avg Price,Quantity''"
  have c: "calculateProfitLossForRecords codeUnitCompare ?rs \<lparr>confirmationIdx = -1\<rparr> =
      Inr [Some [], Some ''8.00'']"
    by (simp add: engine_eval toFixed2_eval)
  have nl: "CHR 0x0A \<notin> set ?h \<and> (\<forall>r\<in>set ?rs. CHR 0x0A \<notin> set (line r))"
    by (simp add: row_def)
  have o: "outputLines ?h ?rs [Some [], Some ''8.00''] =
      [''AsxCode,Order Type,Trade Date,Avg Price,Quantity,ProfitLoss'',
       ''AAA,Buy,2024-01-01,10,10,'', ''AAA,Sell,2024-01-02,12,4,8.00'']"
    by (simp add: output_eval row_def)
  from output_keeps_rows_and_appends_one_field [OF c, of ?h] nl
  have "splitChar (CHR 0x0A) (buildOutputCsv ?h ?rs [Some [], Some ''8.00'']) =
      outputLines ?h ?rs [Some [], Some ''8.00''] @ [[]]"
    by blast
  with c o show ?thesis by simp
qed

section \<open>The field parsers\<close>









end
